theory Spec2Isabelle
  imports Main "HOL-Library.Word"
begin

section \<open>The raw print job of send-to-printer.c\<close>

text \<open>
  The program is one function, \<^verbatim>\<open>main\<close>, that drives the Windows spooler through
  OpenPrinter, StartDocPrinter, StartPagePrinter, WritePrinter, EndPagePrinter,
  EndDocPrinter and ClosePrinter, printing one progress line per step. Everything it
  does is an effect, so the model returns the ordered list of its effects (spooler calls
  with their arguments, and the text given to \<^verbatim>\<open>printf\<close>) together with the exit code.
  What the spooler answers is not decided by the program: it is the parameter of the model.
\<close>

subsection \<open>Data\<close>

type_synonym DWORD = "32 word"
type_synonym BYTE = "8 word"

text \<open>A printer handle is opaque to the program; it is only passed back to the spooler.\<close>

type_synonym HANDLE = nat

text \<open>
  The three string pointers of \<^verbatim>\<open>DOC_INFO_1\<close>; \<open>None\<close> is the \<^verbatim>\<open>NULL\<close> pointer.
\<close>

record DOC_INFO_1 =
  pDocName :: "string option"
  pOutputFile :: "string option"
  pDatatype :: "string option"

text \<open>
  The spooler calls the program makes, with the arguments it passes. The printer defaults
  given to OpenPrinter are always \<^verbatim>\<open>NULL\<close> and are left out; the out-parameters
  (\<^verbatim>\<open>&hPrinter\<close>, \<^verbatim>\<open>&dwBytesWritten\<close>) are results and live in the spooler's answers below.
\<close>

datatype call =
    OpenPrinter string
  | StartDocPrinter HANDLE DWORD DOC_INFO_1
  | StartPagePrinter HANDLE
  | WritePrinter HANDLE "BYTE list" DWORD
  | EndPagePrinter HANDLE
  | EndDocPrinter HANDLE
  | ClosePrinter HANDLE
  | GetLastError

datatype event = Call call | Printf string

text \<open>
  The answers of the spooler. Every function is called at most once in a run, always with
  constant arguments or with the handle the spooler itself gave, so one answer per function
  describes every behaviour the program can meet.
  \<^item> OpenPrinter: \<open>None\<close> when it returns zero, \<open>Some h\<close> when it returns nonzero and
    stores \<open>h\<close> in \<^verbatim>\<open>hPrinter\<close>;
  \<^item> StartDocPrinter: the job identifier, zero for failure;
  \<^item> WritePrinter: \<open>None\<close> when it returns zero, \<open>Some n\<close> when it returns nonzero and
    stores \<open>n\<close> in \<^verbatim>\<open>dwBytesWritten\<close>;
  \<^item> the other \<^verbatim>\<open>BOOL\<close> results are only ever tested with \<^verbatim>\<open>!\<close>: \<open>True\<close> is nonzero.
\<close>

record spooler =
  OpenPrinter_ret :: "HANDLE option"
  StartDocPrinter_ret :: DWORD
  StartPagePrinter_ret :: bool
  WritePrinter_ret :: "DWORD option"
  EndPagePrinter_ret :: bool
  EndDocPrinter_ret :: bool
  ClosePrinter_ret :: bool
  GetLastError_ret :: DWORD

subsection \<open>Printing a number\<close>

fun show_nat :: "nat \<Rightarrow> string" where
  "show_nat n =
     (if n < 10 then [''0123456789'' ! n]
      else show_nat (n div 10) @ [''0123456789'' ! (n mod 10)])"

definition show_int :: "int \<Rightarrow> string" where
  "show_int i = (if i < 0 then ''-'' @ show_nat (nat (- i)) else show_nat (nat i))"

text \<open>A \<^verbatim>\<open>DWORD\<close> given to \<^verbatim>\<open>%d\<close> is printed as a signed 32-bit integer.\<close>

definition show_d :: "DWORD \<Rightarrow> string" where
  "show_d w = show_int (sint w)"

subsection \<open>The payload\<close>

definition data :: "BYTE list" where
  "data =
     [0x1B, 0x40]
     @ map of_char ''TEST\<newline>''
     @ map of_char ''Line 1\<newline>''
     @ map of_char ''Line 2\<newline>''
     @ map of_char ''\<newline>\<newline>\<newline>\<newline>''
     @ [0x1D, 0x56, 0x00]"

definition dwDataSize :: DWORD where
  "dwDataSize = of_nat (length data)"

subsection \<open>main\<close>

definition main :: "spooler \<Rightarrow> event list \<times> int" where
  "main os =
    (let t1 = [Printf ''\<newline>Windows RAW Printer API Test\<newline>'',
               Printf ''=============================\<newline>\<newline>'',
               Call (OpenPrinter ''EPSON TM-T20III Receipt'')]
     in
     case OpenPrinter_ret os of
       None \<Rightarrow>
         (t1 @ [Printf ''ERROR: Could not open printer\<newline>'',
                Call GetLastError,
                Printf (''Error code: '' @ show_d (GetLastError_ret os) @ ''\<newline>'')],
          1)
     | Some hPrinter \<Rightarrow>
        (let DocInfo = \<lparr>pDocName = Some ''RAW Test'',
                        pOutputFile = None,
                        pDatatype = Some ''RAW''\<rparr>;
             t2 = t1 @ [Printf ''OK: Printer opened\<newline>'',
                        Call (StartDocPrinter hPrinter 1 DocInfo)];
             dwJob = StartDocPrinter_ret os
         in
         if dwJob = 0 then
           (t2 @ [Printf ''ERROR: Could not start document\<newline>'',
                  Call GetLastError,
                  Printf (''Error code: '' @ show_d (GetLastError_ret os) @ ''\<newline>''),
                  Call (ClosePrinter hPrinter)],
            1)
         else
          (let t3 = t2 @ [Printf (''OK: Document started (Job ID: '' @ show_d dwJob
                                    @ '')\<newline>''),
                          Call (StartPagePrinter hPrinter)]
           in
           if \<not> StartPagePrinter_ret os then
             (t3 @ [Printf ''ERROR: Could not start page\<newline>'',
                    Call (EndDocPrinter hPrinter),
                    Call (ClosePrinter hPrinter)],
              1)
           else
            (let t4 = t3 @ [Printf ''OK: Page started\<newline>'',
                            Call (WritePrinter hPrinter data dwDataSize)]
             in
             case WritePrinter_ret os of
               None \<Rightarrow>
                 (t4 @ [Printf ''ERROR: Could not write to printer\<newline>'',
                        Call GetLastError,
                        Printf (''Error code: '' @ show_d (GetLastError_ret os)
                                  @ ''\<newline>''),
                        Call (EndPagePrinter hPrinter),
                        Call (EndDocPrinter hPrinter),
                        Call (ClosePrinter hPrinter)],
                  1)
             | Some dwBytesWritten \<Rightarrow>
                 (t4 @ [Printf (''OK: Wrote '' @ show_d dwBytesWritten
                                  @ '' bytes\<newline>''),
                        Call (EndPagePrinter hPrinter)]
                     @ (if \<not> EndPagePrinter_ret os
                        then [Printf ''ERROR: Could not end page\<newline>''] else [])
                     @ [Printf ''OK: Page ended\<newline>'',
                        Call (EndDocPrinter hPrinter)]
                     @ (if \<not> EndDocPrinter_ret os
                        then [Printf ''ERROR: Could not end document\<newline>''] else [])
                     @ [Printf ''OK: Document ended\<newline>'',
                        Call (ClosePrinter hPrinter),
                        Printf ''\<newline>SUCCESS: Print job submitted!\<newline>'',
                        Printf ''\<newline>** CHECK YOUR PRINTER **\<newline>\<newline>''],
                  0)))))"

subsection \<open>Reading a run\<close>

definition trace :: "event list \<times> int \<Rightarrow> event list" where
  "trace r = fst r"

definition exit_code :: "event list \<times> int \<Rightarrow> int" where
  "exit_code r = snd r"

fun calls :: "event list \<Rightarrow> call list" where
  "calls [] = []"
| "calls (Call c # t) = c # calls t"
| "calls (Printf s # t) = calls t"

fun printed :: "event list \<Rightarrow> string list" where
  "printed [] = []"
| "printed (Call c # t) = printed t"
| "printed (Printf s # t) = s # printed t"

text \<open>The lifecycle step a spooler call performs, without its arguments.\<close>

datatype step = Open | StartJob | StartPage | Write | EndPage | EndJob | Close | LastError

fun step_of :: "call \<Rightarrow> step" where
  "step_of (OpenPrinter name) = Open"
| "step_of (StartDocPrinter h lvl di) = StartJob"
| "step_of (StartPagePrinter h) = StartPage"
| "step_of (WritePrinter h buf n) = Write"
| "step_of (EndPagePrinter h) = EndPage"
| "step_of (EndDocPrinter h) = EndJob"
| "step_of (ClosePrinter h) = Close"
| "step_of GetLastError = LastError"

definition steps :: "event list \<times> int \<Rightarrow> step list" where
  "steps r = map step_of (calls (trace r))"

definition lines :: "event list \<times> int \<Rightarrow> string list" where
  "lines r = printed (trace r)"

definition teardown :: "step \<Rightarrow> bool" where
  "teardown s = (s = EndPage \<or> s = EndJob \<or> s = Close)"

text \<open>\<open>adjacent a b xs\<close>: somewhere in \<open>xs\<close>, \<open>a\<close> is immediately followed by \<open>b\<close>.\<close>

fun adjacent :: "'a \<Rightarrow> 'a \<Rightarrow> 'a list \<Rightarrow> bool" where
  "adjacent a b (x # y # xs) = ((x = a \<and> y = b) \<or> adjacent a b (y # xs))"
| "adjacent a b xs = False"

text \<open>The final banner, printed only by the path that returns 0.\<close>

abbreviation success_banner :: string where
  "success_banner \<equiv> ''\<newline>SUCCESS: Print job submitted!\<newline>''"

subsection \<open>Some spoolers\<close>

text \<open>A spooler on which every call succeeds and the whole payload is accepted.\<close>

definition os_ok :: spooler where
  "os_ok = \<lparr>OpenPrinter_ret = Some 7, StartDocPrinter_ret = 3, StartPagePrinter_ret = True,
            WritePrinter_ret = Some 28, EndPagePrinter_ret = True, EndDocPrinter_ret = True,
            ClosePrinter_ret = True, GetLastError_ret = 0\<rparr>"

text \<open>The printer cannot be opened (error 1801, the printer name is invalid).\<close>

definition os_no_printer :: spooler where
  "os_no_printer = os_ok\<lparr>OpenPrinter_ret := None, GetLastError_ret := 1801\<rparr>"

text \<open>The job is refused (error 5, access denied).\<close>

definition os_no_job :: spooler where
  "os_no_job = os_ok\<lparr>StartDocPrinter_ret := 0, GetLastError_ret := 5\<rparr>"

text \<open>WritePrinter returns zero.\<close>

definition os_write_fails :: spooler where
  "os_write_fails = os_ok\<lparr>WritePrinter_ret := None, GetLastError_ret := 6\<rparr>"

text \<open>WritePrinter returns nonzero and reports 10 bytes accepted.\<close>

definition os_short_write :: spooler where
  "os_short_write = os_ok\<lparr>WritePrinter_ret := Some 10\<rparr>"

text \<open>The teardown calls fail, one at a time.\<close>

definition os_endpage_fails :: spooler where
  "os_endpage_fails = os_ok\<lparr>EndPagePrinter_ret := False\<rparr>"

definition os_enddoc_fails :: spooler where
  "os_enddoc_fails = os_ok\<lparr>EndDocPrinter_ret := False\<rparr>"

definition os_close_fails :: spooler where
  "os_close_fails = os_ok\<lparr>ClosePrinter_ret := False\<rparr>"

subsection \<open>Auxiliary facts\<close>

lemma calls_append [simp]: "calls (xs @ ys) = calls xs @ calls ys"
  by (induction xs rule: calls.induct) simp_all

lemma printed_append [simp]: "printed (xs @ ys) = printed xs @ printed ys"
  by (induction xs rule: printed.induct) simp_all

lemma length_data: "length data = 28"
  by (simp add: data_def)

lemma show_d_28: "show_d 28 = ''28''"
  by (simp add: show_d_def show_int_def)

lemmas os_defs = os_ok_def os_no_printer_def os_no_job_def os_write_fails_def
  os_short_write_def os_endpage_fails_def os_enddoc_fails_def os_close_fails_def

text \<open>The spooler calls of a run, path by path.\<close>

lemma calls_main:
  "calls (trace (main os)) =
    OpenPrinter ''EPSON TM-T20III Receipt'' #
    (case OpenPrinter_ret os of
       None \<Rightarrow> [GetLastError]
     | Some h \<Rightarrow>
         StartDocPrinter h 1
           \<lparr>pDocName = Some ''RAW Test'', pOutputFile = None, pDatatype = Some ''RAW''\<rparr> #
         (if StartDocPrinter_ret os = 0 then [GetLastError, ClosePrinter h]
          else
            StartPagePrinter h #
            (if \<not> StartPagePrinter_ret os then [EndDocPrinter h, ClosePrinter h]
             else
               WritePrinter h data dwDataSize #
               (case WritePrinter_ret os of
                  None \<Rightarrow> [GetLastError, EndPagePrinter h, EndDocPrinter h, ClosePrinter h]
                | Some n \<Rightarrow> [EndPagePrinter h, EndDocPrinter h, ClosePrinter h]))))"
  by (simp add: main_def Let_def trace_def split: option.splits)

lemma steps_main:
  "steps (main os) =
    (case OpenPrinter_ret os of
       None \<Rightarrow> [Open, LastError]
     | Some h \<Rightarrow>
         if StartDocPrinter_ret os = 0 then [Open, StartJob, LastError, Close]
         else if \<not> StartPagePrinter_ret os then [Open, StartJob, StartPage, EndJob, Close]
         else (case WritePrinter_ret os of
                 None \<Rightarrow> [Open, StartJob, StartPage, Write, LastError, EndPage, EndJob, Close]
               | Some n \<Rightarrow> [Open, StartJob, StartPage, Write, EndPage, EndJob, Close]))"
  by (simp add: steps_def calls_main split: option.splits)

lemma exit_code_main:
  "exit_code (main os) =
    (case OpenPrinter_ret os of
       None \<Rightarrow> 1
     | Some h \<Rightarrow>
         if StartDocPrinter_ret os = 0 then 1
         else if \<not> StartPagePrinter_ret os then 1
         else (case WritePrinter_ret os of None \<Rightarrow> 1 | Some n \<Rightarrow> 0))"
  by (simp add: main_def Let_def exit_code_def split: option.splits)

text \<open>The text printed by a run, path by path.\<close>

lemma lines_main:
  "lines (main os) =
    [''\<newline>Windows RAW Printer API Test\<newline>'',
     ''=============================\<newline>\<newline>'']
    @ (case OpenPrinter_ret os of
         None \<Rightarrow>
           [''ERROR: Could not open printer\<newline>'',
            ''Error code: '' @ show_d (GetLastError_ret os) @ ''\<newline>'']
       | Some h \<Rightarrow>
           ''OK: Printer opened\<newline>'' #
           (if StartDocPrinter_ret os = 0 then
              [''ERROR: Could not start document\<newline>'',
               ''Error code: '' @ show_d (GetLastError_ret os) @ ''\<newline>'']
            else
              (''OK: Document started (Job ID: '' @ show_d (StartDocPrinter_ret os)
                 @ '')\<newline>'') #
              (if \<not> StartPagePrinter_ret os then [''ERROR: Could not start page\<newline>'']
               else
                 ''OK: Page started\<newline>'' #
                 (case WritePrinter_ret os of
                    None \<Rightarrow>
                      [''ERROR: Could not write to printer\<newline>'',
                       ''Error code: '' @ show_d (GetLastError_ret os) @ ''\<newline>'']
                  | Some n \<Rightarrow>
                      [''OK: Wrote '' @ show_d n @ '' bytes\<newline>'']
                      @ (if EndPagePrinter_ret os then []
                         else [''ERROR: Could not end page\<newline>''])
                      @ [''OK: Page ended\<newline>'']
                      @ (if EndDocPrinter_ret os then []
                         else [''ERROR: Could not end document\<newline>''])
                      @ [''OK: Document ended\<newline>'', success_banner,
                         ''\<newline>** CHECK YOUR PRINTER **\<newline>\<newline>'']))))"
  by (simp add: main_def Let_def trace_def lines_def split: option.splits)

text \<open>
  The result of ClosePrinter is never read: two spoolers that differ only there give the
  same run, call for call and line for line.
\<close>

lemma main_ignores_ClosePrinter_ret: "main (os\<lparr>ClosePrinter_ret := c\<rparr>) = main os"
  by (cases "OpenPrinter_ret os"; cases "WritePrinter_ret os") (simp_all add: main_def Let_def)

text \<open>
  When WritePrinter returns zero, the results of EndPagePrinter and EndDocPrinter are
  not read either.
\<close>

lemma main_write_failed_ignores_teardown:
  "WritePrinter_ret os = None \<Longrightarrow>
     main (os\<lparr>EndPagePrinter_ret := a, EndDocPrinter_ret := b\<rparr>) = main os"
  by (cases "OpenPrinter_ret os") (simp_all add: main_def Let_def)

section \<open>The claims\<close>

subsection \<open>C1: a short write\<close>

text \<open>
  C1, as amended. Whenever OpenPrinter, StartDocPrinter and StartPagePrinter succeed and
  WritePrinter returns nonzero, the run is a success (exit code 0, success banner), whatever
  number of bytes the spooler reports as accepted; that number is only printed in the
  "OK: Wrote n bytes" line, and no write error is printed. The program has no short-write
  failure.
\<close>

theorem write_accepted_is_success:
  assumes "OpenPrinter_ret os = Some h" "StartDocPrinter_ret os \<noteq> 0"
    "StartPagePrinter_ret os" "WritePrinter_ret os = Some n"
  shows "exit_code (main os) = 0
    \<and> success_banner \<in> set (lines (main os))
    \<and> (''OK: Wrote '' @ show_d n @ '' bytes\<newline>'') \<in> set (lines (main os))
    \<and> ''ERROR: Could not write to printer\<newline>'' \<notin> set (lines (main os))"
  using assms by (simp add: exit_code_main lines_main)

text \<open>The theorem at the spooler that accepts 10 bytes.\<close>

theorem write_accepted_is_success_witness:
  "exit_code (main os_short_write) = 0
    \<and> success_banner \<in> set (lines (main os_short_write))
    \<and> (''OK: Wrote '' @ show_d 10 @ '' bytes\<newline>'') \<in> set (lines (main os_short_write))
    \<and> ''ERROR: Could not write to printer\<newline>'' \<notin> set (lines (main os_short_write))"
  by (rule write_accepted_is_success [of os_short_write 7 10]) (simp_all add: os_defs)

text \<open>
  C1 as stated fails: with 10 of the 28 bytes accepted the run returns 0 and prints the
  success banner.
\<close>

theorem short_write_reported_as_success:
  "OpenPrinter_ret os_short_write = Some 7
   \<and> StartDocPrinter_ret os_short_write \<noteq> 0
   \<and> StartPagePrinter_ret os_short_write
   \<and> WritePrinter_ret os_short_write = Some 10
   \<and> unat (10 :: DWORD) < length data
   \<and> exit_code (main os_short_write) = 0
   \<and> success_banner \<in> set (lines (main os_short_write))"
  by (simp add: exit_code_main lines_main os_defs length_data)

subsection \<open>C2: ClosePrinter\<close>

text \<open>
  C2. On every path, the ClosePrinter calls of a run are: none when OpenPrinter failed, and
  exactly one, on the handle OpenPrinter gave, when it succeeded, whatever StartDocPrinter,
  StartPagePrinter and WritePrinter answer.
\<close>

theorem close_once_iff_opened:
  "filter (\<lambda>c. step_of c = Close) (calls (trace (main os)))
     = (case OpenPrinter_ret os of None \<Rightarrow> [] | Some h \<Rightarrow> [ClosePrinter h])"
  by (simp add: calls_main split: option.splits)

text \<open>Both cases: a run whose write fails, and a run that cannot open the printer.\<close>

theorem close_once_iff_opened_witness:
  "filter (\<lambda>c. step_of c = Close) (calls (trace (main os_write_fails))) = [ClosePrinter 7]
   \<and> filter (\<lambda>c. step_of c = Close) (calls (trace (main os_no_printer))) = []"
  using close_once_iff_opened [of os_write_fails] close_once_iff_opened [of os_no_printer]
  by (simp add: os_defs)

subsection \<open>C3: the job descriptor\<close>

text \<open>
  C3. In every run, every StartDocPrinter call carries a job descriptor whose data type
  is the string "RAW" and whose output file is the null pointer.
\<close>

theorem job_descriptor_is_raw:
  "\<forall>c \<in> set (calls (trace (main os))). \<forall>h lvl di.
     c = StartDocPrinter h lvl di \<longrightarrow> pDatatype di = Some ''RAW'' \<and> pOutputFile di = None"
  by (simp add: calls_main split: option.splits)

text \<open>A run that reaches StartDocPrinter: the call is there, with that descriptor.\<close>

theorem job_descriptor_is_raw_witness:
  "StartDocPrinter 7 1
     \<lparr>pDocName = Some ''RAW Test'', pOutputFile = None, pDatatype = Some ''RAW''\<rparr>
     \<in> set (calls (trace (main os_no_job)))
   \<and> pDatatype \<lparr>pDocName = Some ''RAW Test'', pOutputFile = None, pDatatype = Some ''RAW''\<rparr>
       = Some ''RAW''
   \<and> pOutputFile \<lparr>pDocName = Some ''RAW Test'', pOutputFile = None, pDatatype = Some ''RAW''\<rparr>
       = None"
proof -
  let ?di = "\<lparr>pDocName = Some ''RAW Test'', pOutputFile = None, pDatatype = Some ''RAW''\<rparr>"
  have m: "StartDocPrinter 7 1 ?di \<in> set (calls (trace (main os_no_job)))"
    by (simp add: calls_main os_defs)
  from job_descriptor_is_raw [of os_no_job] m
  have "pDatatype ?di = Some ''RAW'' \<and> pOutputFile ?di = None"
    by blast
  with m show ?thesis by blast
qed

subsection \<open>C4: the payload\<close>

text \<open>
  C4, as amended. The payload (initialize sequence, "TEST", two text lines, four blank
  lines, cut sequence) has length exactly 28 bytes, that is the size given to WritePrinter,
  and a run in which every step succeeds and the spooler accepts the whole payload is a
  success that prints "OK: Wrote 28 bytes".
\<close>

theorem payload_is_28_bytes:
  assumes "OpenPrinter_ret os = Some h" "StartDocPrinter_ret os \<noteq> 0"
    "StartPagePrinter_ret os" "WritePrinter_ret os = Some dwDataSize"
  shows "length data = 28 \<and> dwDataSize = 28
    \<and> exit_code (main os) = 0
    \<and> success_banner \<in> set (lines (main os))
    \<and> ''OK: Wrote 28 bytes\<newline>'' \<in> set (lines (main os))"
  using assms by (simp add: exit_code_main lines_main dwDataSize_def length_data show_d_28)

text \<open>The theorem at the spooler on which everything succeeds.\<close>

theorem payload_is_28_bytes_witness:
  "length data = 28 \<and> dwDataSize = 28
    \<and> exit_code (main os_ok) = 0
    \<and> success_banner \<in> set (lines (main os_ok))
    \<and> ''OK: Wrote 28 bytes\<newline>'' \<in> set (lines (main os_ok))"
  by (rule payload_is_28_bytes [of os_ok 7]) (simp_all add: os_defs dwDataSize_def length_data)

text \<open>C4 as stated fails: the payload is not 29 bytes long.\<close>

theorem payload_is_not_29_bytes: "length data \<noteq> 29"
  by (simp add: length_data)

subsection \<open>C5: StartDocPrinter fails\<close>

text \<open>
  C5. When the printer is opened and StartDocPrinter returns zero, the run calls none of
  StartPagePrinter, WritePrinter, EndPagePrinter, EndDocPrinter, calls ClosePrinter exactly
  once, prints "ERROR: Could not start document" and returns 1.
\<close>

theorem job_start_failure:
  assumes "OpenPrinter_ret os = Some h" "StartDocPrinter_ret os = 0"
  shows "StartPage \<notin> set (steps (main os))
    \<and> Write \<notin> set (steps (main os))
    \<and> EndPage \<notin> set (steps (main os))
    \<and> EndJob \<notin> set (steps (main os))
    \<and> count_list (steps (main os)) Close = 1
    \<and> exit_code (main os) = 1
    \<and> ''ERROR: Could not start document\<newline>'' \<in> set (lines (main os))"
  using assms by (simp add: steps_main exit_code_main lines_main)

text \<open>The theorem at the spooler that refuses the job.\<close>

theorem job_start_failure_witness:
  "StartPage \<notin> set (steps (main os_no_job))
    \<and> Write \<notin> set (steps (main os_no_job))
    \<and> EndPage \<notin> set (steps (main os_no_job))
    \<and> EndJob \<notin> set (steps (main os_no_job))
    \<and> count_list (steps (main os_no_job)) Close = 1
    \<and> exit_code (main os_no_job) = 1
    \<and> ''ERROR: Could not start document\<newline>'' \<in> set (lines (main os_no_job))"
  by (rule job_start_failure [of os_no_job 7]) (simp_all add: os_defs)

subsection \<open>C6: teardown after a failed or short write\<close>

text \<open>
  C6, as amended. When the printer is opened, the job and the page are started, and
  WritePrinter either returns zero or returns nonzero with fewer bytes accepted than the
  payload has, EndPagePrinter and EndDocPrinter are each called exactly once, and their
  results do not change what is reported: when WritePrinter returned zero the whole run is
  the same whatever they answer, with the write error and exit code 1; when it returned
  nonzero with a short count the exit code is 0 whatever they answer and no write error is
  printed, so no fatal error is reported at all.
\<close>

theorem teardown_after_bad_write:
  assumes "OpenPrinter_ret os = Some h" "StartDocPrinter_ret os \<noteq> 0" "StartPagePrinter_ret os"
    and "WritePrinter_ret os = None
         \<or> (\<exists>n. WritePrinter_ret os = Some n \<and> unat n < length data)"
  shows "count_list (steps (main os)) EndPage = 1
    \<and> count_list (steps (main os)) EndJob = 1
    \<and> exit_code (main os) = (if WritePrinter_ret os = None then 1 else 0)
    \<and> exit_code (main (os\<lparr>EndPagePrinter_ret := a, EndDocPrinter_ret := b\<rparr>))
        = exit_code (main os)
    \<and> (''ERROR: Could not write to printer\<newline>''
          \<in> set (lines (main (os\<lparr>EndPagePrinter_ret := a, EndDocPrinter_ret := b\<rparr>))))
        = (WritePrinter_ret os = None)
    \<and> (WritePrinter_ret os = None \<longrightarrow>
          main (os\<lparr>EndPagePrinter_ret := a, EndDocPrinter_ret := b\<rparr>) = main os)"
proof -
  let ?os' = "os\<lparr>EndPagePrinter_ret := a, EndDocPrinter_ret := b\<rparr>"
  have counts:
    "count_list (steps (main os)) EndPage = 1 \<and> count_list (steps (main os)) EndJob = 1"
    using assms(1-3) by (simp add: steps_main split: option.splits)
  have code: "exit_code (main os) = (if WritePrinter_ret os = None then 1 else 0)"
    using assms(1-3) by (simp add: exit_code_main split: option.splits)
  have same_code: "exit_code (main ?os') = exit_code (main os)"
    by (simp add: exit_code_main split: option.splits)
  have line: "(''ERROR: Could not write to printer\<newline>'' \<in> set (lines (main ?os')))
      = (WritePrinter_ret os = None)"
    using assms(1-3) by (simp add: lines_main split: option.splits)
  have same_run: "WritePrinter_ret os = None \<longrightarrow> main ?os' = main os"
    by (simp add: main_write_failed_ignores_teardown)
  from counts code same_code line same_run show ?thesis by blast
qed

text \<open>The theorem at the spooler whose WritePrinter returns zero.\<close>

theorem teardown_after_bad_write_witness:
  "count_list (steps (main os_write_fails)) EndPage = 1
    \<and> count_list (steps (main os_write_fails)) EndJob = 1
    \<and> exit_code (main os_write_fails) = 1
    \<and> exit_code (main (os_write_fails\<lparr>EndPagePrinter_ret := False,
                                       EndDocPrinter_ret := False\<rparr>))
        = exit_code (main os_write_fails)
    \<and> ''ERROR: Could not write to printer\<newline>''
          \<in> set (lines (main (os_write_fails\<lparr>EndPagePrinter_ret := False,
                                                 EndDocPrinter_ret := False\<rparr>)))
    \<and> main (os_write_fails\<lparr>EndPagePrinter_ret := False, EndDocPrinter_ret := False\<rparr>)
        = main os_write_fails"
proof -
  have "OpenPrinter_ret os_write_fails = Some 7" "StartDocPrinter_ret os_write_fails \<noteq> 0"
    "StartPagePrinter_ret os_write_fails" "WritePrinter_ret os_write_fails = None"
    by (simp_all add: os_defs)
  from teardown_after_bad_write [OF this(1-3) disjI1, OF this(4), of False False] this(4)
  show ?thesis by auto
qed

text \<open>
  C6 as stated fails: with 10 of the 28 bytes accepted, and EndPagePrinter and
  EndDocPrinter each called once, the run returns 0 and prints no line that starts with
  "ERROR": there is no fatal error for the teardown results to leave unchanged.
\<close>

theorem short_write_reports_no_fatal_error:
  "OpenPrinter_ret os_short_write = Some 7
   \<and> StartDocPrinter_ret os_short_write = 3
   \<and> StartPagePrinter_ret os_short_write
   \<and> WritePrinter_ret os_short_write = Some 10
   \<and> unat (10 :: DWORD) < length data
   \<and> count_list (steps (main os_short_write)) EndPage = 1
   \<and> count_list (steps (main os_short_write)) EndJob = 1
   \<and> exit_code (main os_short_write) = 0
   \<and> filter (\<lambda>l. take 5 l = ''ERROR'') (lines (main os_short_write)) = []"
  by (simp add: steps_main exit_code_main lines_main os_defs length_data show_d_def show_int_def)

subsection \<open>C7: reporting teardown failures\<close>

text \<open>
  C7, as amended. The result of ClosePrinter is never read, so a failure of the close step
  is not reported on any path: the run is the same whatever ClosePrinter answers. Once
  WritePrinter has returned nonzero, a failure of EndPagePrinter is reported by the line
  "ERROR: Could not end page" and a failure of EndDocPrinter by the line
  "ERROR: Could not end document", each printed exactly when the call failed.
\<close>

theorem teardown_failure_reporting:
  "main (os\<lparr>ClosePrinter_ret := c\<rparr>) = main os
   \<and> (OpenPrinter_ret os = Some h \<and> StartDocPrinter_ret os \<noteq> 0
        \<and> StartPagePrinter_ret os \<and> WritePrinter_ret os = Some n \<longrightarrow>
        (''ERROR: Could not end page\<newline>'' \<in> set (lines (main os)))
           = (\<not> EndPagePrinter_ret os)
        \<and> (''ERROR: Could not end document\<newline>'' \<in> set (lines (main os)))
           = (\<not> EndDocPrinter_ret os))"
  by (simp add: main_ignores_ClosePrinter_ret lines_main)

text \<open>The theorem at the spooler whose EndPagePrinter fails.\<close>

theorem teardown_failure_reporting_witness:
  "main (os_endpage_fails\<lparr>ClosePrinter_ret := False\<rparr>) = main os_endpage_fails
    \<and> ''ERROR: Could not end page\<newline>'' \<in> set (lines (main os_endpage_fails))
    \<and> ''ERROR: Could not end document\<newline>'' \<notin> set (lines (main os_endpage_fails))"
  using teardown_failure_reporting
    [where os = os_endpage_fails and c = False and h = 7 and n = 28]
  by (simp add: os_defs)

text \<open>
  C7 as stated fails: when only ClosePrinter fails, ClosePrinter is called once and the
  run (calls, printed lines and exit code) is the run of the spooler on which nothing
  fails.
\<close>

theorem close_failure_not_reported:
  "\<not> ClosePrinter_ret os_close_fails
   \<and> count_list (steps (main os_close_fails)) Close = 1
   \<and> main os_close_fails = main os_ok"
  by (simp add: steps_main os_close_fails_def main_ignores_ClosePrinter_ret) (simp add: os_ok_def)

subsection \<open>C8: the order of teardown\<close>

text \<open>
  C8. On every path, the teardown calls of a run, in the order they are made, are one of:
  none; ClosePrinter; EndDocPrinter then ClosePrinter; EndPagePrinter then EndDocPrinter
  then ClosePrinter. So end-page always comes before end-job, and end-job before close.
\<close>

theorem teardown_order:
  "filter teardown (steps (main os))
     \<in> {[], [Close], [EndJob, Close], [EndPage, EndJob, Close]}"
  by (simp add: steps_main teardown_def split: option.splits)

subsection \<open>C9: a teardown failure after a successful write\<close>

text \<open>
  C9. When OpenPrinter, StartDocPrinter, StartPagePrinter and WritePrinter succeed but
  EndPagePrinter or EndDocPrinter fails, the run still returns 0 and prints the success
  banner and the "OK: Wrote n bytes" line with the count the spooler gave; the exit code
  is the one of the run in which both succeed; and the failed step is reported by its
  "ERROR: Could not end ..." line.
\<close>

theorem teardown_failure_keeps_success:
  assumes "OpenPrinter_ret os = Some h" "StartDocPrinter_ret os \<noteq> 0"
    "StartPagePrinter_ret os" "WritePrinter_ret os = Some n"
    and "\<not> EndPagePrinter_ret os \<or> \<not> EndDocPrinter_ret os"
  shows "exit_code (main os) = 0
    \<and> success_banner \<in> set (lines (main os))
    \<and> (''OK: Wrote '' @ show_d n @ '' bytes\<newline>'') \<in> set (lines (main os))
    \<and> (\<not> EndPagePrinter_ret os \<longrightarrow>
          ''ERROR: Could not end page\<newline>'' \<in> set (lines (main os)))
    \<and> (\<not> EndDocPrinter_ret os \<longrightarrow>
          ''ERROR: Could not end document\<newline>'' \<in> set (lines (main os)))
    \<and> exit_code (main os)
        = exit_code (main (os\<lparr>EndPagePrinter_ret := True, EndDocPrinter_ret := True\<rparr>))"
  using assms(1-4) by (simp add: exit_code_main lines_main)

text \<open>The theorem at the spooler whose EndPagePrinter fails.\<close>

theorem teardown_failure_keeps_success_witness:
  "exit_code (main os_endpage_fails) = 0
    \<and> success_banner \<in> set (lines (main os_endpage_fails))
    \<and> (''OK: Wrote '' @ show_d 28 @ '' bytes\<newline>'') \<in> set (lines (main os_endpage_fails))
    \<and> ''ERROR: Could not end page\<newline>'' \<in> set (lines (main os_endpage_fails))"
  using teardown_failure_keeps_success [of os_endpage_fails 7 28]
  by (simp add: os_defs)

subsection \<open>C10: the progress lines of teardown\<close>

text \<open>
  C10. Once WritePrinter has returned nonzero, the lines "OK: Page ended" and
  "OK: Document ended" are printed whatever EndPagePrinter and EndDocPrinter answer; when
  one of them fails, its "ERROR: Could not end ..." line is immediately followed by the
  "OK: ... ended" line of the same step.
\<close>

theorem ok_lines_unconditional:
  assumes "OpenPrinter_ret os = Some h" "StartDocPrinter_ret os \<noteq> 0"
    "StartPagePrinter_ret os" "WritePrinter_ret os = Some n"
  shows "''OK: Page ended\<newline>'' \<in> set (lines (main os))
    \<and> ''OK: Document ended\<newline>'' \<in> set (lines (main os))
    \<and> (\<not> EndPagePrinter_ret os \<longrightarrow>
          adjacent ''ERROR: Could not end page\<newline>'' ''OK: Page ended\<newline>''
            (lines (main os)))
    \<and> (\<not> EndDocPrinter_ret os \<longrightarrow>
          adjacent ''ERROR: Could not end document\<newline>'' ''OK: Document ended\<newline>''
            (lines (main os)))"
  using assms by (simp add: lines_main)

text \<open>The theorem at the spooler whose EndDocPrinter fails.\<close>

theorem ok_lines_unconditional_witness:
  "''OK: Page ended\<newline>'' \<in> set (lines (main os_enddoc_fails))
    \<and> ''OK: Document ended\<newline>'' \<in> set (lines (main os_enddoc_fails))
    \<and> adjacent ''ERROR: Could not end document\<newline>'' ''OK: Document ended\<newline>''
         (lines (main os_enddoc_fails))"
  using ok_lines_unconditional [of os_enddoc_fails 7 28]
  by (simp add: os_defs)

end
